theory Spec2Isabelle
  imports Main "HOL-Library.AList"
begin

section \<open>Data model\<close>

text \<open>
  Modelled from the spec: the declaration of \<open>storage.Client\<close> is not among the
  sources. The fields are the ones the manager reads or writes (\<open>ID\<close>,
  \<open>CreateTime\<close>, \<open>UpdateTime\<close>, \<open>Secret\<close>, \<open>Public\<close>, \<open>Disabled\<close>) and the ones the
  \<open>List\<close> query names. Timestamps are Unix seconds (Go \<open>int64\<close>); they are only
  compared with zero and assigned, never computed with.
\<close>

record Client =
  ID :: string
  CreateTime :: int
  UpdateTime :: int
  AllowedTenantAccess :: "string list"
  GrantTypes :: "string list"
  ResponseTypes :: "string list"
  Scopes :: "string list"
  Public :: bool
  Disabled :: bool
  Secret :: string
  RedirectURIs :: "string list"
  Contacts :: "string list"

text \<open>The zero value \<open>storage.Client{}\<close>.\<close>

definition zeroClient :: Client where
  "zeroClient =
     \<lparr>ID = [], CreateTime = 0, UpdateTime = 0, AllowedTenantAccess = [], GrantTypes = [],
      ResponseTypes = [], Scopes = [], Public = False, Disabled = False, Secret = [],
      RedirectURIs = [], Contacts = []\<rparr>"

text \<open>
  Modelled from the spec: \<open>Client.IsEmpty\<close> is not among the sources; the spec calls
  its positive answer the "empty record", which is the zero value.
\<close>

definition IsEmpty :: "Client \<Rightarrow> bool" where
  "IsEmpty c \<longleftrightarrow> c = zeroClient"

text \<open>\<open>Client.GetHashedSecret\<close>: the stored secret as bytes.\<close>

definition GetHashedSecret :: "Client \<Rightarrow> string" where
  "GetHashedSecret c = Secret c"

text \<open>
  Errors of the storage engine (\<open>mgo\<close>): \<open>mgo.ErrNotFound\<close>, a duplicate-key error
  (the ones \<open>mgo.IsDup\<close> recognises) and any other failure, by its message.
\<close>

datatype mgo_error = MgoErrNotFound | MgoDup | MgoFailure string

definition IsDup :: "mgo_error \<Rightarrow> bool" where
  "IsDup err \<longleftrightarrow> err = MgoDup"

text \<open>
  Errors the managers return: \<open>fosite.ErrNotFound\<close>, \<open>fosite.ErrAccessDenied\<close>,
  \<open>storage.ErrResourceExists\<close>, an engine error passed through as it is, and an error
  of the hasher passed through as it is.
\<close>

datatype error =
  ErrNotFound | ErrAccessDenied | ErrResourceExists | ErrEngine mgo_error | ErrHasher string

text \<open>
  \<open>fosite.Hasher\<close>: \<open>Hash\<close> returns the digest or an error, \<open>Compare digest secret\<close>
  returns an error unless the secret matches the digest. The manager holds one as a
  field, so it is a parameter of every operation that hashes.
\<close>

record hasher =
  Hash :: "string \<Rightarrow> string + string"
  Compare :: "string \<Rightarrow> string \<Rightarrow> string option"

text \<open>What one call reads from its surroundings: \<open>time.Now().Unix()\<close> and \<open>uuid.New()\<close>.\<close>

record env =
  Now :: int
  NewUUID :: string

text \<open>
  Modelled from the spec: the stored session record (\<open>storage.Request\<close>) and the
  collection names (\<open>storage.Entity...\<close>) are not among the sources. A session record
  holds the signature it is keyed by, the owning client's ID, requested and granted
  scopes and audience, the form values, the opaque session payload and the request time.
\<close>

datatype entity = EntityClients | EntityPKCESessions | EntityOpenIDSessions

record Request =
  Signature :: string
  ClientID :: string
  RequestedAt :: int
  RequestedScope :: "string list"
  GrantedScope :: "string list"
  RequestedAudience :: "string list"
  GrantedAudience :: "string list"
  Form :: "(string \<times> string list) list"
  SessionData :: string

text \<open>
  \<open>fosite.Requester\<close>, as far as the session operations read it. \<open>GetSession\<close> is
  \<open>None\<close> for the nil session. The client of a rebuilt request is the resolved record.
\<close>

record Requester =
  GetClient_ID :: string
  GetRequestedAt :: int
  GetRequestedScopes :: "string list"
  GetGrantedScopes :: "string list"
  GetRequestedAudience :: "string list"
  GetGrantedAudience :: "string list"
  GetRequestForm :: "(string \<times> string list) list"
  GetSession :: "string option"

record FositeRequest =
  req_Client :: Client
  req_RequestedAt :: int
  req_RequestedScope :: "string list"
  req_GrantedScope :: "string list"
  req_RequestedAudience :: "string list"
  req_GrantedAudience :: "string list"
  req_Form :: "(string \<times> string list) list"
  req_Session :: string

text \<open>What a tracing span receives: a record (\<open>otLogQuery\<close>) or an error (\<open>otLogErr\<close>).\<close>

datatype span_entry = LogQuery Client | LogErr mgo_error

text \<open>
  The world the managers act on: the client collection in insertion order, the session
  collections by name, the outcomes the engine will give to the coming calls (\<open>None\<close>:
  the call is carried out; \<open>Some err\<close>: the call fails with \<open>err\<close> and changes
  nothing; an empty script: every call is carried out), and what the tracing spans
  have been given so far.
\<close>

record store =
  clients :: "Client list"
  sessions :: "entity \<Rightarrow> Request list"
  faults :: "mgo_error option list"
  spanlog :: "span_entry list"

section \<open>The storage engine\<close>

definition engine :: "store \<Rightarrow> mgo_error option \<times> store" where
  "engine st = (case faults st of [] \<Rightarrow> (None, st) | f # fs \<Rightarrow> (f, st\<lparr>faults := fs\<rparr>))"

fun replace_first :: "('a \<Rightarrow> bool) \<Rightarrow> 'a \<Rightarrow> 'a list \<Rightarrow> 'a list" where
  "replace_first P d [] = []"
| "replace_first P d (x # xs) = (if P x then d # xs else x # replace_first P d xs)"

fun remove_first :: "('a \<Rightarrow> bool) \<Rightarrow> 'a list \<Rightarrow> 'a list" where
  "remove_first P [] = []"
| "remove_first P (x # xs) = (if P x then xs else x # remove_first P xs)"

text \<open>The selector \<open>bson.M{"id": i}\<close>.\<close>

definition hasID :: "string \<Rightarrow> Client \<Rightarrow> bool" where
  "hasID i c \<longleftrightarrow> ID c = i"

text \<open>\<open>collection.Find(bson.M{"id": i}).One(&result)\<close> on the client collection.\<close>

definition mgo_One :: "string \<Rightarrow> store \<Rightarrow> (mgo_error + Client) \<times> store" where
  "mgo_One i st =
     (case engine st of
        (Some err, st1) \<Rightarrow> (Inl err, st1)
      | (None, st1) \<Rightarrow>
          (case find (hasID i) (clients st1) of
             None \<Rightarrow> (Inl MgoErrNotFound, st1)
           | Some c \<Rightarrow> (Inr c, st1)))"

text \<open>\<open>collection.Insert(doc)\<close> under the unique index on \<open>id\<close>.\<close>

definition mgo_Insert :: "Client \<Rightarrow> store \<Rightarrow> mgo_error option \<times> store" where
  "mgo_Insert doc st =
     (case engine st of
        (Some err, st1) \<Rightarrow> (Some err, st1)
      | (None, st1) \<Rightarrow>
          (if list_ex (hasID (ID doc)) (clients st1) then (Some MgoDup, st1)
           else (None, st1\<lparr>clients := clients st1 @ [doc]\<rparr>)))"

text \<open>
  \<open>collection.Update(bson.M{"id": i}, doc)\<close>: replaces the first matching document by
  \<open>doc\<close>; \<open>mgo.ErrNotFound\<close> when none matches; a duplicate-key error when \<open>doc\<close> would
  take the \<open>id\<close> of another document.
\<close>

definition mgo_Update :: "string \<Rightarrow> Client \<Rightarrow> store \<Rightarrow> mgo_error option \<times> store" where
  "mgo_Update i doc st =
     (case engine st of
        (Some err, st1) \<Rightarrow> (Some err, st1)
      | (None, st1) \<Rightarrow>
          (if \<not> list_ex (hasID i) (clients st1) then (Some MgoErrNotFound, st1)
           else if ID doc \<noteq> i \<and> list_ex (hasID (ID doc)) (clients st1) then (Some MgoDup, st1)
           else (None, st1\<lparr>clients := replace_first (hasID i) doc (clients st1)\<rparr>)))"

text \<open>
  \<open>collection.Upsert(bson.M{"id": i}, doc)\<close>: replaces the first matching document, or
  inserts \<open>doc\<close> when none matches.
\<close>

definition mgo_Upsert :: "string \<Rightarrow> Client \<Rightarrow> store \<Rightarrow> mgo_error option \<times> store" where
  "mgo_Upsert i doc st =
     (case engine st of
        (Some err, st1) \<Rightarrow> (Some err, st1)
      | (None, st1) \<Rightarrow>
          (if ID doc \<noteq> i \<and> list_ex (hasID (ID doc)) (clients st1) then (Some MgoDup, st1)
           else if list_ex (hasID i) (clients st1)
             then (None, st1\<lparr>clients := replace_first (hasID i) doc (clients st1)\<rparr>)
           else (None, st1\<lparr>clients := clients st1 @ [doc]\<rparr>)))"

text \<open>\<open>collection.Remove(bson.M{"id": i})\<close>: removes the first matching document.\<close>

definition mgo_Remove :: "string \<Rightarrow> store \<Rightarrow> mgo_error option \<times> store" where
  "mgo_Remove i st =
     (case engine st of
        (Some err, st1) \<Rightarrow> (Some err, st1)
      | (None, st1) \<Rightarrow>
          (if \<not> list_ex (hasID i) (clients st1) then (Some MgoErrNotFound, st1)
           else (None, st1\<lparr>clients := remove_first (hasID i) (clients st1)\<rparr>)))"

text \<open>The tracing helpers: each appends what it is given to the span.\<close>

definition otLogQuery :: "Client \<Rightarrow> store \<Rightarrow> store" where
  "otLogQuery c st = st\<lparr>spanlog := spanlog st @ [LogQuery c]\<rparr>"

definition otLogErr :: "mgo_error \<Rightarrow> store \<Rightarrow> store" where
  "otLogErr err st = st\<lparr>spanlog := spanlog st @ [LogErr err]\<rparr>"

section \<open>The client manager\<close>

definition getConcrete :: "string \<Rightarrow> store \<Rightarrow> (error + Client) \<times> store" where
  "getConcrete clientID st =
     (case mgo_One clientID st of
        (Inl err, st1) \<Rightarrow>
          (if err = MgoErrNotFound then (Inl ErrNotFound, st1)
           else (Inl (ErrEngine err), otLogErr err st1))
      | (Inr storageClient, st1) \<Rightarrow> (Inr storageClient, st1))"

definition Get :: "string \<Rightarrow> store \<Rightarrow> (error + Client) \<times> store" where
  "Get clientID st = getConcrete clientID st"

definition Create :: "hasher \<Rightarrow> env \<Rightarrow> Client \<Rightarrow> store \<Rightarrow> (error + Client) \<times> store" where
  "Create h e client st =
     (let client1 = (if ID client = [] then client\<lparr>ID := NewUUID e\<rparr> else client);
          client2 = (if CreateTime client1 = 0 then client1\<lparr>CreateTime := Now e\<rparr> else client1)
      in case Hash h (Secret client2) of
           Inl msg \<Rightarrow> (Inl (ErrHasher msg), st)
         | Inr hash \<Rightarrow>
             (let client3 = client2\<lparr>Secret := hash\<rparr>
              in case mgo_Insert client3 st of
                   (Some err, st1) \<Rightarrow>
                     (if IsDup err then (Inl ErrResourceExists, otLogErr err st1)
                      else (Inl (ErrEngine err),
                            otLogErr err (otLogQuery (client3\<lparr>Secret := ''REDACTED''\<rparr>) st1)))
                 | (None, st1) \<Rightarrow> (Inr client3, st1)))"

definition Update ::
  "hasher \<Rightarrow> env \<Rightarrow> string \<Rightarrow> Client \<Rightarrow> store \<Rightarrow> (error + Client) \<times> store" where
  "Update h e clientID updatedClient st =
     (case getConcrete clientID st of
        (Inl err, st1) \<Rightarrow> (Inl err, st1)
      | (Inr currentResource, st1) \<Rightarrow>
          (let updated1 = updatedClient\<lparr>ID := clientID\<rparr>;
               updated2 = updated1\<lparr>UpdateTime := Now e\<rparr>
           in case (if Secret currentResource = Secret updated2 \<or> Secret updated2 = []
                    then Inr (Secret currentResource)
                    else Hash h (Secret updated2)) of
                Inl msg \<Rightarrow> (Inl (ErrHasher msg), st1)
              | Inr secret \<Rightarrow>
                  (let updated3 = updated2\<lparr>Secret := secret\<rparr>
                   in case mgo_Update clientID updated3 st1 of
                        (Some err, st2) \<Rightarrow>
                          (if err = MgoErrNotFound then (Inl ErrNotFound, otLogErr err st2)
                           else (Inl (ErrEngine err), otLogErr err (otLogQuery updated3 st2)))
                      | (None, st2) \<Rightarrow> (Inr updated3, st2))))"

definition Migrate :: "env \<Rightarrow> Client \<Rightarrow> store \<Rightarrow> (error + Client) \<times> store" where
  "Migrate e migratedClient st =
     (let migrated1 =
            (if ID migratedClient = [] then migratedClient\<lparr>ID := NewUUID e\<rparr>
             else migratedClient);
          migrated2 =
            (if CreateTime migrated1 = 0 then migrated1\<lparr>CreateTime := Now e\<rparr>
             else migrated1\<lparr>UpdateTime := Now e\<rparr>)
      in case mgo_Upsert (ID migrated2) migrated2 st of
           (Some err, st1) \<Rightarrow>
             (if err = MgoErrNotFound then (Inl ErrNotFound, otLogErr err st1)
              else if IsDup err then (Inl ErrResourceExists, otLogErr err st1)
              else (Inl (ErrEngine err), otLogErr err (otLogQuery migrated2 st1)))
         | (None, st1) \<Rightarrow> (Inr migrated2, st1))"

definition Delete :: "string \<Rightarrow> store \<Rightarrow> error option \<times> store" where
  "Delete clientID st =
     (case mgo_Remove clientID st of
        (Some err, st1) \<Rightarrow>
          (if err = MgoErrNotFound then (Some ErrNotFound, otLogErr err st1)
           else (Some (ErrEngine err), otLogErr err st1))
      | (None, st1) \<Rightarrow> (None, st1))"

definition Authenticate ::
  "hasher \<Rightarrow> string \<Rightarrow> string \<Rightarrow> store \<Rightarrow> (error + Client) \<times> store" where
  "Authenticate h clientID secret st =
     (case getConcrete clientID st of
        (Inl err, st1) \<Rightarrow> (Inl err, st1)
      | (Inr client, st1) \<Rightarrow>
          (if Public client then (Inr client, st1)
           else if Disabled client then (Inl ErrAccessDenied, st1)
           else (case Compare h (GetHashedSecret client) secret of
                   Some msg \<Rightarrow> (Inl (ErrHasher msg), st1)
                 | None \<Rightarrow> (Inr client, st1))))"

text \<open>
  \<open>storage.AuthClientFunc\<close> is a function of no argument that returns the candidate
  record and whether the legacy check authenticated it.
\<close>

definition AuthenticateMigration ::
  "hasher \<Rightarrow> env \<Rightarrow> (unit \<Rightarrow> Client \<times> bool) \<Rightarrow> string \<Rightarrow> string \<Rightarrow> store
     \<Rightarrow> (error + Client) \<times> store" where
  "AuthenticateMigration h e currentAuth clientID secret st =
     (case currentAuth () of
        (client, authenticated) \<Rightarrow>
          (if IsEmpty client \<and> \<not> authenticated then (Inl ErrNotFound, st)
           else if Public client then (Inr client, st)
           else if Disabled client then (Inl ErrAccessDenied, st)
           else if \<not> authenticated then
             (case Compare h (GetHashedSecret client) secret of
                Some msg \<Rightarrow> (Inl (ErrHasher msg), st)
              | None \<Rightarrow> (Inr client, st))
           else
             (case Hash h secret of
                Inl msg \<Rightarrow> (Inl (ErrHasher msg), st)
              | Inr newHash \<Rightarrow> Update h e clientID (client\<lparr>Secret := newHash\<rparr>) st)))"

subsection \<open>Listing clients\<close>

text \<open>
  Modelled from the spec: the declaration of \<open>storage.ListClientsRequest\<close> is not among
  the sources; its fields are the ones \<open>List\<close> reads.
\<close>

record ListClientsRequest =
  filter_AllowedTenantAccess :: string
  filter_RedirectURI :: string
  filter_GrantType :: string
  filter_ResponseType :: string
  filter_ScopesIntersection :: "string list"
  filter_ScopesUnion :: "string list"
  filter_Contact :: string
  filter_Public :: bool
  filter_Disabled :: bool

text \<open>
  Values of document fields, and what a query asks of one field: a plain value
  (\<open>query[k] = v\<close>), \<open>bson.M{"$all": vs}\<close> or \<open>bson.M{"$in": vs}\<close>. A query
  (\<open>bson.M\<close>) has one entry per key: assigning to a key replaces its entry.
\<close>

datatype bson = BString string | BBool bool | BArray "string list"

datatype constraint = MatchEq bson | MatchAll "string list" | MatchIn "string list"

type_synonym query = "(string \<times> constraint) list"

text \<open>
  The engine's matching: a plain value matches an equal field, or an array field that
  contains it; \<open>$all\<close> matches an array field that contains every listed value;
  \<open>$in\<close> matches an array field that contains some listed value, or a plain field
  that is one of them. An absent field matches nothing.
\<close>

fun holds :: "bson option \<Rightarrow> constraint \<Rightarrow> bool" where
  "holds (Some (BArray xs)) (MatchEq (BString v)) = (v \<in> set xs)"
| "holds (Some b) (MatchEq v) = (b = v)"
| "holds (Some (BArray xs)) (MatchAll vs) = (vs \<noteq> [] \<and> set vs \<subseteq> set xs)"
| "holds (Some (BString s)) (MatchAll vs) = (vs \<noteq> [] \<and> set vs \<subseteq> {s})"
| "holds (Some (BArray xs)) (MatchIn vs) = (set vs \<inter> set xs \<noteq> {})"
| "holds (Some (BString s)) (MatchIn vs) = (s \<in> set vs)"
| "holds _ _ = False"

text \<open>
  Modelled from the spec: the document a client record is stored as, under the field
  names the \<open>List\<close> query uses (the struct's \<open>bson\<close> tags are not among the sources).
\<close>

definition document :: "Client \<Rightarrow> (string \<times> bson) list" where
  "document c =
     [(''id'', BString (ID c)),
      (''allowedTenantAccess'', BArray (AllowedTenantAccess c)),
      (''grantTypes'', BArray (GrantTypes c)),
      (''responseTypes'', BArray (ResponseTypes c)),
      (''scopes'', BArray (Scopes c)),
      (''public'', BBool (Public c)),
      (''disabled'', BBool (Disabled c)),
      (''secret'', BString (Secret c)),
      (''redirectUris'', BArray (RedirectURIs c)),
      (''contacts'', BArray (Contacts c))]"

definition matches :: "query \<Rightarrow> Client \<Rightarrow> bool" where
  "matches q c \<longleftrightarrow> list_all (\<lambda>(k, want). holds (map_of (document c) k) want) q"

text \<open>\<open>collection.Find(query).All(&clients)\<close> on the client collection.\<close>

definition mgo_All :: "query \<Rightarrow> store \<Rightarrow> (mgo_error + Client list) \<times> store" where
  "mgo_All q st =
     (case engine st of
        (Some err, st1) \<Rightarrow> (Inl err, st1)
      | (None, st1) \<Rightarrow> (Inr (filter (matches q) (clients st1)), st1))"

text \<open>The query \<open>List\<close> builds, assignment by assignment.\<close>

definition ListQuery :: "ListClientsRequest \<Rightarrow> query" where
  "ListQuery req =
     (let q0 = [];
          q1 = (if filter_AllowedTenantAccess req \<noteq> []
                then AList.update ''allowedTenantAccess''
                       (MatchEq (BString (filter_AllowedTenantAccess req))) q0
                else q0);
          q2 = (if filter_RedirectURI req \<noteq> []
                then AList.update ''redirectUris'' (MatchEq (BString (filter_RedirectURI req))) q1
                else q1);
          q3 = (if filter_GrantType req \<noteq> []
                then AList.update ''grantTypes'' (MatchEq (BString (filter_GrantType req))) q2
                else q2);
          q4 = (if filter_ResponseType req \<noteq> []
                then AList.update ''responseTypes'' (MatchEq (BString (filter_ResponseType req))) q3
                else q3);
          q5 = (if length (filter_ScopesIntersection req) > 0
                then AList.update ''scopes'' (MatchAll (filter_ScopesIntersection req)) q4
                else q4);
          q6 = (if length (filter_ScopesUnion req) > 0
                then AList.update ''scopes'' (MatchIn (filter_ScopesUnion req)) q5
                else q5);
          q7 = (if filter_Contact req \<noteq> []
                then AList.update ''contacts'' (MatchEq (BString (filter_Contact req))) q6
                else q6);
          q8 = (if filter_Public req
                then AList.update ''public'' (MatchEq (BBool (filter_Public req))) q7
                else q7);
          q9 = (if filter_Disabled req
                then AList.update ''disabled'' (MatchEq (BBool (filter_Disabled req))) q8
                else q8)
      in q9)"

definition List :: "ListClientsRequest \<Rightarrow> store \<Rightarrow> (error + Client list) \<times> store" where
  "List req st =
     (case mgo_All (ListQuery req) st of
        (Inl err, st1) \<Rightarrow> (Inl (ErrEngine err), otLogErr err st1)
      | (Inr found, st1) \<Rightarrow> (Inr found, st1))"

section \<open>The session manager\<close>

definition hasSignature :: "string \<Rightarrow> Request \<Rightarrow> bool" where
  "hasSignature sig r \<longleftrightarrow> Signature r = sig"

text \<open>
  Modelled from the spec: \<open>toMongo\<close> is not among the sources. It "serializes the
  requester's client ID, scopes, granted scopes, audience, granted audience, form, and
  session payload into a Session Request Record keyed by signature".
\<close>

definition toMongo :: "string \<Rightarrow> Requester \<Rightarrow> Request" where
  "toMongo signature request =
     \<lparr>Signature = signature,
      ClientID = GetClient_ID request,
      RequestedAt = GetRequestedAt request,
      RequestedScope = GetRequestedScopes request,
      GrantedScope = GetGrantedScopes request,
      RequestedAudience = GetRequestedAudience request,
      GrantedAudience = GetGrantedAudience request,
      Form = GetRequestForm request,
      SessionData = (case GetSession request of None \<Rightarrow> [] | Some payload \<Rightarrow> payload)\<rparr>"

text \<open>
  Modelled from the spec: \<open>requestMongoManager.Create\<close> is not among the sources. It
  stores the record in the named collection and "fails with Conflict if a record with
  that signature already exists in that collection"; any other engine error is passed
  through.
\<close>

definition request_Create :: "entity \<Rightarrow> Request \<Rightarrow> store \<Rightarrow> (error + Request) \<times> store" where
  "request_Create entityName request st =
     (case engine st of
        (Some err, st1) \<Rightarrow>
          (if IsDup err then (Inl ErrResourceExists, st1) else (Inl (ErrEngine err), st1))
      | (None, st1) \<Rightarrow>
          (if list_ex (hasSignature (Signature request)) (sessions st1 entityName)
           then (Inl ErrResourceExists, st1)
           else (Inr request,
                 st1\<lparr>sessions := (sessions st1)(entityName := sessions st1 entityName @ [request])\<rparr>)))"

text \<open>
  Modelled from the spec: \<open>requestMongoManager.GetBySignature\<close> is not among the
  sources. It "fetches the record by signature; fails with NotFound if absent".
\<close>

definition GetBySignature :: "entity \<Rightarrow> string \<Rightarrow> store \<Rightarrow> (error + Request) \<times> store" where
  "GetBySignature entityName signature st =
     (case engine st of
        (Some err, st1) \<Rightarrow>
          (if err = MgoErrNotFound then (Inl ErrNotFound, st1) else (Inl (ErrEngine err), st1))
      | (None, st1) \<Rightarrow>
          (case find (hasSignature signature) (sessions st1 entityName) of
             None \<Rightarrow> (Inl ErrNotFound, st1)
           | Some req \<Rightarrow> (Inr req, st1)))"

text \<open>
  Modelled from the spec: \<open>Request.ToRequest\<close> is not among the sources. It "resolves
  the owning client via Client Manager (propagating NotFound if the client has since
  been deleted)" and "reassembles a full requester object", the session payload
  deserialized into the destination the caller supplied.
\<close>

definition ToRequest :: "Request \<Rightarrow> string \<Rightarrow> store \<Rightarrow> (error + FositeRequest) \<times> store" where
  "ToRequest req session st =
     (case getConcrete (ClientID req) st of
        (Inl err, st1) \<Rightarrow> (Inl err, st1)
      | (Inr client, st1) \<Rightarrow>
          (Inr \<lparr>req_Client = client,
                req_RequestedAt = RequestedAt req,
                req_RequestedScope = RequestedScope req,
                req_GrantedScope = GrantedScope req,
                req_RequestedAudience = RequestedAudience req,
                req_GrantedAudience = GrantedAudience req,
                req_Form = Form req,
                req_Session = SessionData req\<rparr>, st1))"

definition CreatePKCERequestSession :: "string \<Rightarrow> Requester \<Rightarrow> store \<Rightarrow> error option \<times> store" where
  "CreatePKCERequestSession signature request st =
     (case request_Create EntityPKCESessions (toMongo signature request) st of
        (Inl err, st1) \<Rightarrow>
          (if err = ErrResourceExists then (Some err, st1) else (Some err, st1))
      | (Inr _, st1) \<Rightarrow> (None, st1))"

definition CreateOpenIDConnectSession :: "string \<Rightarrow> Requester \<Rightarrow> store \<Rightarrow> error option \<times> store" where
  "CreateOpenIDConnectSession authorizeCode request st =
     (case request_Create EntityOpenIDSessions (toMongo authorizeCode request) st of
        (Inl err, st1) \<Rightarrow>
          (if err = ErrResourceExists then (Some err, st1) else (Some err, st1))
      | (Inr _, st1) \<Rightarrow> (None, st1))"

definition GetOpenIDConnectSession ::
  "string \<Rightarrow> Requester \<Rightarrow> store \<Rightarrow> (error + FositeRequest) \<times> store" where
  "GetOpenIDConnectSession authorizeCode requester st =
     (case GetBySignature EntityOpenIDSessions authorizeCode st of
        (Inl err, st1) \<Rightarrow> (Inl err, st1)
      | (Inr req, st1) \<Rightarrow>
          (case GetSession requester of
             None \<Rightarrow> (Inl ErrNotFound, st1)
           | Some session \<Rightarrow>
               (case ToRequest req session st1 of
                  (Inl err, st2) \<Rightarrow> (Inl err, st2)
                | (Inr request, st2) \<Rightarrow> (Inr request, st2))))"

section \<open>Contracts of the surroundings\<close>

text \<open>
  The hasher's contract: a digest is never the secret it was computed from, and
  \<open>Compare\<close> accepts a digest for exactly that secret.
\<close>

definition hasher_ok :: "hasher \<Rightarrow> bool" where
  "hasher_ok h \<longleftrightarrow>
     (\<forall>s d. Hash h s = Inr d \<longrightarrow> d \<noteq> s \<and> (\<forall>t. Compare h d t = None \<longleftrightarrow> t = s))"

text \<open>The unique index on \<open>id\<close> that \<open>Configure\<close> ensures on the client collection.\<close>

definition unique_ids :: "store \<Rightarrow> bool" where
  "unique_ids st \<longleftrightarrow> distinct (map ID (clients st))"

section \<open>Sample data\<close>

text \<open>A hasher that meets the contract: it prefixes the secret with a mark.\<close>

definition demoHasher :: hasher where
  "demoHasher =
     \<lparr>Hash = (\<lambda>s. Inr (CHR ''#'' # s)),
      Compare = (\<lambda>d s. if d = CHR ''#'' # s then None else Some ''mismatch'')\<rparr>"

definition demoEnv :: env where
  "demoEnv = \<lparr>Now = 200, NewUUID = ''uuid-1''\<rparr>"

definition demoClient :: Client where
  "demoClient =
     \<lparr>ID = ''c1'', CreateTime = 100, UpdateTime = 0, AllowedTenantAccess = [''acme''],
      GrantTypes = [''authorization_code''], ResponseTypes = [''code''],
      Scopes = [''read'', ''write''], Public = False, Disabled = False,
      Secret = ''#s3cr3t'', RedirectURIs = [''https://app/cb''], Contacts = []\<rparr>"

definition demoStore :: "Client list \<Rightarrow> store" where
  "demoStore cs = \<lparr>clients = cs, sessions = (\<lambda>_. []), faults = [], spanlog = []\<rparr>"

definition demoRequester :: Requester where
  "demoRequester =
     \<lparr>GetClient_ID = ''c1'', GetRequestedAt = 150, GetRequestedScopes = [''read''],
      GetGrantedScopes = [''read''], GetRequestedAudience = [], GetGrantedAudience = [],
      GetRequestForm = [], GetSession = None\<rparr>"

text \<open>The zero value \<open>storage.ListClientsRequest{}\<close>: no field constrains.\<close>

definition zeroFilter :: ListClientsRequest where
  "zeroFilter =
     \<lparr>filter_AllowedTenantAccess = [], filter_RedirectURI = [], filter_GrantType = [],
      filter_ResponseType = [], filter_ScopesIntersection = [], filter_ScopesUnion = [],
      filter_Contact = [], filter_Public = False, filter_Disabled = False\<rparr>"

section \<open>Basic facts\<close>

lemma engine_ok: "faults st = [] \<Longrightarrow> engine st = (None, st)"
  by (simp add: engine_def)

lemma demoHasher_ok: "hasher_ok demoHasher"
  by (simp add: hasher_ok_def demoHasher_def)

lemma find_hasID_distinct:
  "distinct (map ID cs) \<Longrightarrow> c \<in> set cs \<Longrightarrow> find (hasID (ID c)) cs = Some c"
  by (induction cs) (auto simp: hasID_def)

lemma getConcrete_found:
  "faults st = [] \<Longrightarrow> find (hasID i) (clients st) = Some c \<Longrightarrow> getConcrete i st = (Inr c, st)"
  by (simp add: getConcrete_def mgo_One_def engine_def)

lemma getConcrete_absent:
  "faults st = [] \<Longrightarrow> find (hasID i) (clients st) = None \<Longrightarrow>
   getConcrete i st = (Inl ErrNotFound, st)"
  by (simp add: getConcrete_def mgo_One_def engine_def)

section \<open>Authentication of disabled clients\<close>

text \<open>
  C2, as amended. For a stored client whose disabled flag is set, \<open>Authenticate\<close> fails
  with \<open>ErrAccessDenied\<close> for every presented secret, unless the client is public: a
  public client is authenticated before the disabled flag is looked at. (The engine
  answers the lookup; the collection has its unique index.)
\<close>

theorem Authenticate_disabled:
  assumes "faults st = []" and "unique_ids st"
    and "c \<in> set (clients st)" and "Disabled c"
  shows "Authenticate h (ID c) secret st =
           (if Public c then (Inr c, st) else (Inl ErrAccessDenied, st))"
proof -
  from assms(2,3) have "find (hasID (ID c)) (clients st) = Some c"
    unfolding unique_ids_def by (rule find_hasID_distinct)
  with assms(1) have "getConcrete (ID c) st = (Inr c, st)"
    by (rule getConcrete_found)
  with assms(4) show ?thesis
    by (simp add: Authenticate_def)
qed

theorem Authenticate_disabled_witness:
  "Authenticate demoHasher ''c1'' ''s3cr3t'' (demoStore [demoClient\<lparr>Disabled := True\<rparr>]) =
     (Inl ErrAccessDenied, demoStore [demoClient\<lparr>Disabled := True\<rparr>])"
  using Authenticate_disabled [of "demoStore [demoClient\<lparr>Disabled := True\<rparr>]"
      "demoClient\<lparr>Disabled := True\<rparr>" demoHasher "''s3cr3t''"]
  by (simp add: demoStore_def demoClient_def unique_ids_def)

text \<open>
  The claim as stated fails for a client that is both public and disabled: any secret
  authenticates it.
\<close>

theorem Authenticate_disabled_counterexample:
  "Disabled (demoClient\<lparr>Public := True, Disabled := True\<rparr>) \<and>
   Authenticate demoHasher ''c1'' ''wrong''
       (demoStore [demoClient\<lparr>Public := True, Disabled := True\<rparr>]) =
     (Inr (demoClient\<lparr>Public := True, Disabled := True\<rparr>),
      demoStore [demoClient\<lparr>Public := True, Disabled := True\<rparr>])"
  by (simp add: Authenticate_def getConcrete_def mgo_One_def engine_def hasID_def
      demoStore_def demoClient_def)

section \<open>Facts about the collection\<close>

lemma find_None_list_ex: "find P xs = None \<longleftrightarrow> \<not> list_ex P xs"
  by (induction xs) auto

lemma set_remove_first: "x \<in> set (remove_first P xs) \<Longrightarrow> x \<in> set xs"
  by (induction xs) (auto split: if_splits)

lemma list_ex_remove_first_distinct:
  "distinct (map ID cs) \<Longrightarrow> \<not> list_ex (hasID i) (remove_first (hasID i) cs)"
proof (induction cs)
  case Nil
  then show ?case by simp
next
  case (Cons c cs)
  show ?case
  proof (cases "hasID i c")
    case True
    with Cons.prems have "\<forall>x \<in> set cs. ID x \<noteq> i"
      by (force simp: hasID_def image_iff)
    with True show ?thesis
      by (simp add: list_ex_iff hasID_def)
  next
    case False
    with Cons show ?thesis by simp
  qed
qed

lemma find_append_new:
  "\<not> list_ex (hasID (ID d)) cs \<Longrightarrow> find (hasID (ID d)) (cs @ [d]) = Some d"
  by (induction cs) (auto simp: hasID_def)

lemma find_replace_first:
  "list_ex (hasID (ID d)) cs \<Longrightarrow> find (hasID (ID d)) (replace_first (hasID (ID d)) d cs) = Some d"
  by (induction cs) (auto simp: hasID_def)

section \<open>Deleting a client\<close>

lemma Delete_present:
  "faults st = [] \<Longrightarrow> list_ex (hasID i) (clients st) \<Longrightarrow>
   Delete i st = (None, st\<lparr>clients := remove_first (hasID i) (clients st)\<rparr>)"
  by (simp add: Delete_def mgo_Remove_def engine_def)

lemma Delete_absent:
  "faults st = [] \<Longrightarrow> \<not> list_ex (hasID i) (clients st) \<Longrightarrow>
   Delete i st = (Some ErrNotFound, otLogErr MgoErrNotFound st)"
  by (simp add: Delete_def mgo_Remove_def engine_def)

text \<open>
  C8. When a client with the ID is in the store, \<open>Delete\<close> succeeds and removes it;
  then \<open>Get\<close> of that ID fails with \<open>ErrNotFound\<close> and a second \<open>Delete\<close> fails with
  \<open>ErrNotFound\<close> too. \<open>Delete\<close> of an ID that is not in the store fails with
  \<open>ErrNotFound\<close>. (The engine answers the calls; the collection has its unique index.)
\<close>

theorem Delete_then_NotFound:
  assumes "faults st = []" and "unique_ids st"
  shows "if list_ex (hasID i) (clients st)
         then (let st' = st\<lparr>clients := remove_first (hasID i) (clients st)\<rparr>
               in Delete i st = (None, st') \<and>
                  Get i st' = (Inl ErrNotFound, st') \<and>
                  Delete i st' = (Some ErrNotFound, otLogErr MgoErrNotFound st'))
         else Delete i st = (Some ErrNotFound, otLogErr MgoErrNotFound st)"
proof (cases "list_ex (hasID i) (clients st)")
  case True
  define st' where "st' = st\<lparr>clients := remove_first (hasID i) (clients st)\<rparr>"
  have ok: "faults st' = []"
    using assms(1) by (simp add: st'_def)
  have gone: "\<not> list_ex (hasID i) (clients st')"
    using assms(2) by (simp add: st'_def unique_ids_def list_ex_remove_first_distinct)
  have "Delete i st = (None, st')"
    using assms(1) True by (simp add: st'_def Delete_present)
  moreover have "Get i st' = (Inl ErrNotFound, st')"
    using ok gone by (simp add: Get_def getConcrete_absent find_None_list_ex)
  moreover have "Delete i st' = (Some ErrNotFound, otLogErr MgoErrNotFound st')"
    using ok gone by (rule Delete_absent)
  ultimately show ?thesis
    using True by (simp add: st'_def Let_def)
next
  case False
  with assms(1) show ?thesis
    by (simp add: Delete_absent)
qed

theorem Delete_then_NotFound_witness:
  "Delete ''c1'' (demoStore [demoClient]) = (None, demoStore []) \<and>
   Get ''c1'' (demoStore []) = (Inl ErrNotFound, demoStore []) \<and>
   Delete ''c1'' (demoStore []) = (Some ErrNotFound, otLogErr MgoErrNotFound (demoStore [])) \<and>
   Delete ''c2'' (demoStore [demoClient]) =
     (Some ErrNotFound, otLogErr MgoErrNotFound (demoStore [demoClient]))"
  using Delete_then_NotFound [of "demoStore [demoClient]" "''c1''"]
    Delete_then_NotFound [of "demoStore [demoClient]" "''c2''"]
  by (simp add: demoStore_def demoClient_def unique_ids_def hasID_def Let_def)

section \<open>Creating a client and reading it back\<close>

lemma mgo_Insert_new:
  "faults st = [] \<Longrightarrow> \<not> list_ex (hasID (ID d)) (clients st) \<Longrightarrow>
   mgo_Insert d st = (None, st\<lparr>clients := clients st @ [d]\<rparr>)"
  by (simp add: mgo_Insert_def engine_def)

text \<open>
  C3. For a client \<open>c\<close> that \<open>Create\<close> accepts (its ID, or the generated one when it is
  blank, is not in the store, and the hasher returns a digest \<open>d\<close> of its secret),
  \<open>Create\<close> returns \<open>c\<close> with the ID and the create time filled in and the secret replaced
  by \<open>d\<close>; \<open>Get\<close> of the returned ID returns that same record, field for field; and its
  secret is not the plaintext secret of \<open>c\<close>. (The engine answers the calls; the hasher
  meets its contract.)
\<close>

theorem Create_then_Get:
  assumes "faults st = []" and "hasher_ok h" and "Hash h (Secret c) = Inr d"
    and "\<not> list_ex (hasID (if ID c = [] then NewUUID e else ID c)) (clients st)"
  shows "\<exists>r st'. Create h e c st = (Inr r, st') \<and>
           Get (ID r) st' = (Inr r, st') \<and>
           r = c\<lparr>ID := (if ID c = [] then NewUUID e else ID c),
                 CreateTime := (if CreateTime c = 0 then Now e else CreateTime c),
                 Secret := d\<rparr> \<and>
           Secret r \<noteq> Secret c"
proof -
  define r where "r = c\<lparr>ID := (if ID c = [] then NewUUID e else ID c),
      CreateTime := (if CreateTime c = 0 then Now e else CreateTime c), Secret := d\<rparr>"
  define st' where "st' = st\<lparr>clients := clients st @ [r]\<rparr>"
  have new: "\<not> list_ex (hasID (ID r)) (clients st)"
    using assms(4) by (simp add: r_def)
  have ins: "mgo_Insert r st = (None, st')"
    using assms(1) new by (simp add: st'_def mgo_Insert_new)
  have r_eq: "(let client1 = (if ID c = [] then c\<lparr>ID := NewUUID e\<rparr> else c)
               in if CreateTime client1 = 0 then client1\<lparr>CreateTime := Now e\<rparr>
                  else client1)\<lparr>Secret := d\<rparr> = r"
    by (simp add: r_def Let_def)
  have sec: "Secret (let client1 = (if ID c = [] then c\<lparr>ID := NewUUID e\<rparr> else c)
               in if CreateTime client1 = 0 then client1\<lparr>CreateTime := Now e\<rparr>
                  else client1) = Secret c"
    by (simp add: Let_def)
  have created: "Create h e c st = (Inr r, st')"
    unfolding Create_def using assms(3) ins r_eq sec by (simp add: Let_def)
  have "find (hasID (ID r)) (clients st') = Some r"
    using new by (simp add: st'_def find_append_new)
  moreover have "faults st' = []"
    using assms(1) by (simp add: st'_def)
  ultimately have got: "Get (ID r) st' = (Inr r, st')"
    by (simp add: Get_def getConcrete_found)
  have "d \<noteq> Secret c"
    using assms(2,3) by (auto simp: hasher_ok_def)
  then have "Secret r \<noteq> Secret c"
    by (simp add: r_def)
  with created got show ?thesis
    by (auto simp: r_def)
qed

theorem Create_then_Get_witness:
  "Create demoHasher demoEnv (demoClient\<lparr>Secret := ''s3cr3t''\<rparr>) (demoStore []) =
     (Inr demoClient, demoStore [demoClient]) \<and>
   Get ''c1'' (demoStore [demoClient]) = (Inr demoClient, demoStore [demoClient]) \<and>
   Secret demoClient \<noteq> ''s3cr3t''"
  using Create_then_Get [of "demoStore []" demoHasher "demoClient\<lparr>Secret := ''s3cr3t''\<rparr>"
      "''#s3cr3t''" demoEnv, OF _ demoHasher_ok]
  by (simp add: demoStore_def demoClient_def demoHasher_def demoEnv_def Create_def
      mgo_Insert_def Get_def getConcrete_def mgo_One_def engine_def hasID_def Let_def)

section \<open>Migrating a client\<close>

lemma mgo_Upsert_ok:
  "faults st = [] \<Longrightarrow>
   mgo_Upsert (ID d) d st =
     (None, st\<lparr>clients := (if list_ex (hasID (ID d)) (clients st)
                             then replace_first (hasID (ID d)) d (clients st)
                             else clients st @ [d])\<rparr>)"
  by (simp add: mgo_Upsert_def engine_def)

text \<open>
  C5, as amended. \<open>Migrate\<close> is an upsert keyed by the client ID (the generated one when
  the ID is blank): when no record with that ID is in the store the record is added,
  otherwise it replaces the stored record as a whole (the stored create time is not
  kept). Which time is stamped depends on the incoming record alone, not on the store:
  an incoming create time of zero is set to the current time and the update time is
  left as given; otherwise the create time is left as given and the update time is set
  to the current time. The stored record is then the one \<open>Get\<close> returns. (The engine
  answers the calls.)
\<close>

theorem Migrate_upsert:
  assumes "faults st = []"
  shows "\<exists>r st'. Migrate e m st = (Inr r, st') \<and>
           r = m\<lparr>ID := (if ID m = [] then NewUUID e else ID m),
                 CreateTime := (if CreateTime m = 0 then Now e else CreateTime m),
                 UpdateTime := (if CreateTime m = 0 then UpdateTime m else Now e)\<rparr> \<and>
           st' = st\<lparr>clients := (if list_ex (hasID (ID r)) (clients st)
                                  then replace_first (hasID (ID r)) r (clients st)
                                  else clients st @ [r])\<rparr> \<and>
           Get (ID r) st' = (Inr r, st')"
proof -
  define r where "r = m\<lparr>ID := (if ID m = [] then NewUUID e else ID m),
      CreateTime := (if CreateTime m = 0 then Now e else CreateTime m),
      UpdateTime := (if CreateTime m = 0 then UpdateTime m else Now e)\<rparr>"
  define st' where "st' = st\<lparr>clients := (if list_ex (hasID (ID r)) (clients st)
      then replace_first (hasID (ID r)) r (clients st) else clients st @ [r])\<rparr>"
  have r_eq: "(let migrated1 = (if ID m = [] then m\<lparr>ID := NewUUID e\<rparr> else m)
               in if CreateTime migrated1 = 0 then migrated1\<lparr>CreateTime := Now e\<rparr>
                  else migrated1\<lparr>UpdateTime := Now e\<rparr>) = r"
    by (simp add: r_def Let_def)
  have "mgo_Upsert (ID r) r st = (None, st')"
    using assms by (simp add: st'_def mgo_Upsert_ok)
  then have migrated: "Migrate e m st = (Inr r, st')"
    unfolding Migrate_def using r_eq by (simp add: Let_def)
  have "find (hasID (ID r)) (clients st') = Some r"
    by (simp add: st'_def find_append_new find_replace_first)
  moreover have "faults st' = []"
    using assms by (simp add: st'_def)
  ultimately have "Get (ID r) st' = (Inr r, st')"
    by (simp add: Get_def getConcrete_found)
  with migrated show ?thesis
    unfolding r_def st'_def by blast
qed

theorem Migrate_upsert_witness:
  "Migrate demoEnv (demoClient\<lparr>Secret := ''#new''\<rparr>) (demoStore [demoClient]) =
     (Inr (demoClient\<lparr>Secret := ''#new'', UpdateTime := 200\<rparr>),
      demoStore [demoClient\<lparr>Secret := ''#new'', UpdateTime := 200\<rparr>]) \<and>
   Migrate demoEnv (demoClient\<lparr>ID := ''c2'', CreateTime := 0\<rparr>) (demoStore [demoClient]) =
     (Inr (demoClient\<lparr>ID := ''c2'', CreateTime := 200\<rparr>),
      demoStore [demoClient, demoClient\<lparr>ID := ''c2'', CreateTime := 200\<rparr>])"
  using Migrate_upsert [of "demoStore [demoClient]" demoEnv "demoClient\<lparr>Secret := ''#new''\<rparr>"]
    Migrate_upsert [of "demoStore [demoClient]" demoEnv "demoClient\<lparr>ID := ''c2'', CreateTime := 0\<rparr>"]
  by (simp add: demoStore_def demoClient_def demoEnv_def hasID_def Migrate_def
      mgo_Upsert_def engine_def Let_def)

text \<open>
  The claim as stated fails when the incoming record has a create time of zero and its
  ID is in the store: the stored record is overwritten, its create time is set, and its
  update time is not.
\<close>

theorem Migrate_upsert_counterexample:
  "list_ex (hasID ''c1'') (clients (demoStore [demoClient])) \<and>
   Migrate demoEnv (demoClient\<lparr>CreateTime := 0\<rparr>) (demoStore [demoClient]) =
     (Inr (demoClient\<lparr>CreateTime := 200\<rparr>), demoStore [demoClient\<lparr>CreateTime := 200\<rparr>]) \<and>
   UpdateTime (demoClient\<lparr>CreateTime := 200\<rparr>) = 0 \<and> Now demoEnv = 200"
  by (simp add: Migrate_def mgo_Upsert_def engine_def hasID_def Let_def
      demoStore_def demoClient_def demoEnv_def)

section \<open>Updating a client\<close>

lemma mgo_Update_ok:
  "faults st = [] \<Longrightarrow> list_ex (hasID i) (clients st) \<Longrightarrow> ID d = i \<Longrightarrow>
   mgo_Update i d st = (None, st\<lparr>clients := replace_first (hasID i) d (clients st)\<rparr>)"
  by (simp add: mgo_Update_def engine_def)

lemma find_Some_list_ex: "find P xs = Some x \<Longrightarrow> list_ex P xs"
  by (induction xs) (auto split: if_splits)

lemma Update_stores:
  assumes "faults st = []" and "find (hasID i) (clients st) = Some cur"
    and "(if Secret cur = Secret u \<or> Secret u = [] then Inr (Secret cur)
          else Hash h (Secret u)) = Inr s"
  shows "Update h e i u st =
           (Inr (u\<lparr>ID := i, UpdateTime := Now e, Secret := s\<rparr>),
            st\<lparr>clients := replace_first (hasID i) (u\<lparr>ID := i, UpdateTime := Now e, Secret := s\<rparr>)
                               (clients st)\<rparr>)"
proof -
  have get: "getConcrete i st = (Inr cur, st)"
    using assms(1,2) by (rule getConcrete_found)
  have present: "list_ex (hasID i) (clients st)"
    using assms(2) by (rule find_Some_list_ex)
  have upd: "mgo_Update i d st = (None, st\<lparr>clients := replace_first (hasID i) d (clients st)\<rparr>)"
    if "ID d = i" for d
    using assms(1) present that by (rule mgo_Update_ok)
  show ?thesis
  proof (cases "Secret cur = Secret u \<or> Secret u = []")
    case True
    with assms(3) have "s = Secret cur"
      by simp
    with True get show ?thesis
      by (simp add: Update_def Let_def upd)
  next
    case False
    with assms(3) have "Hash h (Secret u) = Inr s"
      by simp
    with False get show ?thesis
      by (simp add: Update_def Let_def upd)
  qed
qed

text \<open>
  C4. \<open>Update\<close> fails with \<open>ErrNotFound\<close> when no client with the ID is in the store.
  Otherwise the record it stores in place of the current one, and returns, is the
  incoming record with its ID set to the ID asked for and its update time set to the
  current time; its secret is the stored hash, unchanged, when the incoming secret is
  blank or equals the stored hash, and otherwise the hasher's digest of the incoming
  secret, which verifies against the incoming secret and against no other secret (so
  not against an old secret that differs from it). (The engine answers the calls; the
  hasher meets its contract and returns a digest.)
\<close>

theorem Update_contract:
  assumes "faults st = []" and "hasher_ok h"
  shows "case find (hasID i) (clients st) of
           None \<Rightarrow> Update h e i u st = (Inl ErrNotFound, st)
         | Some cur \<Rightarrow>
             (if Secret u = [] \<or> Secret u = Secret cur
              then (let r = u\<lparr>ID := i, UpdateTime := Now e, Secret := Secret cur\<rparr>;
                        st' = st\<lparr>clients := replace_first (hasID i) r (clients st)\<rparr>
                    in Update h e i u st = (Inr r, st') \<and> Get i st' = (Inr r, st'))
              else (\<forall>d. Hash h (Secret u) = Inr d \<longrightarrow>
                     (let r = u\<lparr>ID := i, UpdateTime := Now e, Secret := d\<rparr>;
                          st' = st\<lparr>clients := replace_first (hasID i) r (clients st)\<rparr>
                      in Update h e i u st = (Inr r, st') \<and> Get i st' = (Inr r, st') \<and>
                         Compare h (Secret r) (Secret u) = None \<and>
                         (\<forall>old. old \<noteq> Secret u \<longrightarrow> Compare h (Secret r) old \<noteq> None))))"
proof (cases "find (hasID i) (clients st)")
  case None
  with assms(1) have "getConcrete i st = (Inl ErrNotFound, st)"
    by (simp add: getConcrete_absent)
  with None show ?thesis
    by (simp add: Update_def)
next
  case (Some cur)
  have present: "list_ex (hasID i) (clients st)"
    using Some by (rule find_Some_list_ex)
  have reread: "Get i (st\<lparr>clients := replace_first (hasID i) r (clients st)\<rparr>) =
      (Inr r, st\<lparr>clients := replace_first (hasID i) r (clients st)\<rparr>)" if "ID r = i" for r
    using that present assms(1) find_replace_first [of r "clients st"]
    by (simp add: Get_def getConcrete_found)
  show ?thesis
  proof (cases "Secret u = [] \<or> Secret u = Secret cur")
    case True
    then have "(if Secret cur = Secret u \<or> Secret u = [] then Inr (Secret cur)
          else Hash h (Secret u)) = Inr (Secret cur)"
      by auto
    with assms(1) Some
    have "Update h e i u st =
           (Inr (u\<lparr>ID := i, UpdateTime := Now e, Secret := Secret cur\<rparr>),
            st\<lparr>clients := replace_first (hasID i)
               (u\<lparr>ID := i, UpdateTime := Now e, Secret := Secret cur\<rparr>) (clients st)\<rparr>)"
      by (rule Update_stores)
    with True Some reread [of "u\<lparr>ID := i, UpdateTime := Now e, Secret := Secret cur\<rparr>"]
    show ?thesis
      by (simp add: Let_def)
  next
    case False
    have "Update h e i u st =
           (Inr (u\<lparr>ID := i, UpdateTime := Now e, Secret := d\<rparr>),
            st\<lparr>clients := replace_first (hasID i)
               (u\<lparr>ID := i, UpdateTime := Now e, Secret := d\<rparr>) (clients st)\<rparr>) \<and>
          Compare h d (Secret u) = None \<and>
          (\<forall>old. old \<noteq> Secret u \<longrightarrow> Compare h d old \<noteq> None)"
      if d: "Hash h (Secret u) = Inr d" for d
    proof -
      from False d
      have "(if Secret cur = Secret u \<or> Secret u = [] then Inr (Secret cur)
          else Hash h (Secret u)) = Inr d"
        by auto
      with assms(1) Some
      have "Update h e i u st =
           (Inr (u\<lparr>ID := i, UpdateTime := Now e, Secret := d\<rparr>),
            st\<lparr>clients := replace_first (hasID i)
               (u\<lparr>ID := i, UpdateTime := Now e, Secret := d\<rparr>) (clients st)\<rparr>)"
        by (rule Update_stores)
      moreover from assms(2) d have "\<forall>t. Compare h d t = None \<longleftrightarrow> t = Secret u"
        by (auto simp: hasher_ok_def)
      ultimately show ?thesis
        by simp
    qed
    with False Some show ?thesis
      using reread by (simp add: Let_def)
  qed
qed

theorem Update_contract_witness:
  "Update demoHasher demoEnv ''c9'' demoClient (demoStore [demoClient]) =
     (Inl ErrNotFound, demoStore [demoClient]) \<and>
   Update demoHasher demoEnv ''c1'' (demoClient\<lparr>ID := ''zz'', Secret := [], Disabled := True\<rparr>)
       (demoStore [demoClient]) =
     (Inr (demoClient\<lparr>Disabled := True, UpdateTime := 200\<rparr>),
      demoStore [demoClient\<lparr>Disabled := True, UpdateTime := 200\<rparr>]) \<and>
   Update demoHasher demoEnv ''c1'' (demoClient\<lparr>Secret := ''n3w''\<rparr>) (demoStore [demoClient]) =
     (Inr (demoClient\<lparr>Secret := ''#n3w'', UpdateTime := 200\<rparr>),
      demoStore [demoClient\<lparr>Secret := ''#n3w'', UpdateTime := 200\<rparr>]) \<and>
   Compare demoHasher ''#n3w'' ''n3w'' = None \<and>
   Compare demoHasher ''#n3w'' ''s3cr3t'' \<noteq> None"
  using Update_contract [where st = "demoStore [demoClient]" and h = demoHasher and i = "''c9''"
      and e = demoEnv and u = demoClient, OF _ demoHasher_ok]
    Update_contract [where st = "demoStore [demoClient]" and h = demoHasher and i = "''c1''"
      and e = demoEnv and u = "demoClient\<lparr>ID := ''zz'', Secret := [], Disabled := True\<rparr>",
      OF _ demoHasher_ok]
    Update_contract [where st = "demoStore [demoClient]" and h = demoHasher and i = "''c1''"
      and e = demoEnv and u = "demoClient\<lparr>Secret := ''n3w''\<rparr>", OF _ demoHasher_ok]
  by (simp add: demoStore_def demoClient_def demoEnv_def demoHasher_def hasID_def Let_def
      Update_def getConcrete_def mgo_One_def mgo_Update_def engine_def)

section \<open>Listing clients\<close>

lemma matches_Nil: "matches [] c"
  by (simp add: matches_def)

lemma matches_update_fresh:
  "k \<notin> fst ` set q \<Longrightarrow>
   matches (AList.update k w q) c \<longleftrightarrow> matches q c \<and> holds (map_of (document c) k) w"
  by (induction q) (auto simp: matches_def)

lemma keys_step:
  "fst ` set q \<subseteq> K \<Longrightarrow> fst ` set (if b then AList.update k w q else q) \<subseteq> insert k K"
  by (auto simp: AList.dom_update)

lemma matches_step:
  "fst ` set q \<subseteq> K \<Longrightarrow> k \<notin> K \<Longrightarrow>
   matches (if b then AList.update k w q else q) c \<longleftrightarrow>
     matches q c \<and> (b \<longrightarrow> holds (map_of (document c) k) w)"
  using matches_update_fresh [of k q w c] by auto

lemma matches_step_twice:
  "fst ` set q \<subseteq> K \<Longrightarrow> k \<notin> K \<Longrightarrow>
   matches (if b2 then AList.update k w2 (if b1 then AList.update k w1 q else q)
            else (if b1 then AList.update k w1 q else q)) c \<longleftrightarrow>
     matches q c \<and>
     (if b2 then holds (map_of (document c) k) w2 else b1 \<longrightarrow> holds (map_of (document c) k) w1)"
  using matches_update_fresh [of k q w1 c] matches_update_fresh [of k q w2 c] by auto

lemma document_fields:
  "map_of (document c) ''allowedTenantAccess'' = Some (BArray (AllowedTenantAccess c))"
  "map_of (document c) ''redirectUris'' = Some (BArray (RedirectURIs c))"
  "map_of (document c) ''grantTypes'' = Some (BArray (GrantTypes c))"
  "map_of (document c) ''responseTypes'' = Some (BArray (ResponseTypes c))"
  "map_of (document c) ''scopes'' = Some (BArray (Scopes c))"
  "map_of (document c) ''contacts'' = Some (BArray (Contacts c))"
  "map_of (document c) ''public'' = Some (BBool (Public c))"
  "map_of (document c) ''disabled'' = Some (BBool (Disabled c))"
  by (simp_all add: document_def)

text \<open>What the query that \<open>List\<close> builds asks of one client record.\<close>

lemma matches_ListQuery:
  "matches (ListQuery req) c \<longleftrightarrow>
     (filter_AllowedTenantAccess req \<noteq> [] \<longrightarrow>
        filter_AllowedTenantAccess req \<in> set (AllowedTenantAccess c)) \<and>
     (filter_RedirectURI req \<noteq> [] \<longrightarrow> filter_RedirectURI req \<in> set (RedirectURIs c)) \<and>
     (filter_GrantType req \<noteq> [] \<longrightarrow> filter_GrantType req \<in> set (GrantTypes c)) \<and>
     (filter_ResponseType req \<noteq> [] \<longrightarrow> filter_ResponseType req \<in> set (ResponseTypes c)) \<and>
     (if filter_ScopesUnion req \<noteq> []
      then set (filter_ScopesUnion req) \<inter> set (Scopes c) \<noteq> {}
      else filter_ScopesIntersection req \<noteq> [] \<longrightarrow>
           set (filter_ScopesIntersection req) \<subseteq> set (Scopes c)) \<and>
     (filter_Contact req \<noteq> [] \<longrightarrow> filter_Contact req \<in> set (Contacts c)) \<and>
     (filter_Public req \<longrightarrow> Public c) \<and>
     (filter_Disabled req \<longrightarrow> Disabled c)"
proof -
  define q1 where "q1 = (if filter_AllowedTenantAccess req \<noteq> []
      then AList.update ''allowedTenantAccess''
             (MatchEq (BString (filter_AllowedTenantAccess req))) []
      else [])"
  define q2 where "q2 = (if filter_RedirectURI req \<noteq> []
      then AList.update ''redirectUris'' (MatchEq (BString (filter_RedirectURI req))) q1
      else q1)"
  define q3 where "q3 = (if filter_GrantType req \<noteq> []
      then AList.update ''grantTypes'' (MatchEq (BString (filter_GrantType req))) q2
      else q2)"
  define q4 where "q4 = (if filter_ResponseType req \<noteq> []
      then AList.update ''responseTypes'' (MatchEq (BString (filter_ResponseType req))) q3
      else q3)"
  define q6 where "q6 = (if filter_ScopesUnion req \<noteq> []
      then AList.update ''scopes'' (MatchIn (filter_ScopesUnion req))
             (if filter_ScopesIntersection req \<noteq> []
              then AList.update ''scopes'' (MatchAll (filter_ScopesIntersection req)) q4
              else q4)
      else (if filter_ScopesIntersection req \<noteq> []
            then AList.update ''scopes'' (MatchAll (filter_ScopesIntersection req)) q4
            else q4))"
  define q7 where "q7 = (if filter_Contact req \<noteq> []
      then AList.update ''contacts'' (MatchEq (BString (filter_Contact req))) q6
      else q6)"
  define q8 where "q8 = (if filter_Public req
      then AList.update ''public'' (MatchEq (BBool (filter_Public req))) q7
      else q7)"
  define q9 where "q9 = (if filter_Disabled req
      then AList.update ''disabled'' (MatchEq (BBool (filter_Disabled req))) q8
      else q8)"
  have built: "ListQuery req = q9"
    by (simp add: ListQuery_def Let_def q1_def q2_def q3_def q4_def q6_def q7_def q8_def q9_def)
  have k0: "fst ` set ([] :: query) \<subseteq> {}"
    by simp
  have k1: "fst ` set q1 \<subseteq> {''allowedTenantAccess''}"
    unfolding q1_def using k0 by (rule keys_step)
  have k2: "fst ` set q2 \<subseteq> {''redirectUris'', ''allowedTenantAccess''}"
    unfolding q2_def using k1 by (rule keys_step)
  have k3: "fst ` set q3 \<subseteq> {''grantTypes'', ''redirectUris'', ''allowedTenantAccess''}"
    unfolding q3_def using k2 by (rule keys_step)
  have k4: "fst ` set q4 \<subseteq>
      {''responseTypes'', ''grantTypes'', ''redirectUris'', ''allowedTenantAccess''}"
    unfolding q4_def using k3 by (rule keys_step)
  have k6: "fst ` set q6 \<subseteq>
      {''scopes'', ''responseTypes'', ''grantTypes'', ''redirectUris'', ''allowedTenantAccess''}"
    unfolding q6_def using k4 by (auto simp: AList.dom_update)
  have k7: "fst ` set q7 \<subseteq>
      {''contacts'', ''scopes'', ''responseTypes'', ''grantTypes'', ''redirectUris'',
       ''allowedTenantAccess''}"
    unfolding q7_def using k6 by (rule keys_step)
  have k8: "fst ` set q8 \<subseteq>
      {''public'', ''contacts'', ''scopes'', ''responseTypes'', ''grantTypes'', ''redirectUris'',
       ''allowedTenantAccess''}"
    unfolding q8_def using k7 by (rule keys_step)
  have m1: "matches q1 c \<longleftrightarrow>
      (filter_AllowedTenantAccess req \<noteq> [] \<longrightarrow>
         filter_AllowedTenantAccess req \<in> set (AllowedTenantAccess c))"
    unfolding q1_def using matches_step [OF k0, of "''allowedTenantAccess''"]
    by (simp add: document_fields matches_Nil)
  have m2: "matches q2 c \<longleftrightarrow> matches q1 c \<and>
      (filter_RedirectURI req \<noteq> [] \<longrightarrow> filter_RedirectURI req \<in> set (RedirectURIs c))"
    unfolding q2_def using matches_step [OF k1, of "''redirectUris''"]
    by (simp add: document_fields)
  have m3: "matches q3 c \<longleftrightarrow> matches q2 c \<and>
      (filter_GrantType req \<noteq> [] \<longrightarrow> filter_GrantType req \<in> set (GrantTypes c))"
    unfolding q3_def using matches_step [OF k2, of "''grantTypes''"]
    by (simp add: document_fields)
  have m4: "matches q4 c \<longleftrightarrow> matches q3 c \<and>
      (filter_ResponseType req \<noteq> [] \<longrightarrow> filter_ResponseType req \<in> set (ResponseTypes c))"
    unfolding q4_def using matches_step [OF k3, of "''responseTypes''"]
    by (simp add: document_fields)
  have m6: "matches q6 c \<longleftrightarrow> matches q4 c \<and>
      (if filter_ScopesUnion req \<noteq> []
       then set (filter_ScopesUnion req) \<inter> set (Scopes c) \<noteq> {}
       else filter_ScopesIntersection req \<noteq> [] \<longrightarrow>
            set (filter_ScopesIntersection req) \<subseteq> set (Scopes c))"
    unfolding q6_def using matches_step_twice [OF k4, of "''scopes''"]
    by (simp add: document_fields)
  have m7: "matches q7 c \<longleftrightarrow> matches q6 c \<and>
      (filter_Contact req \<noteq> [] \<longrightarrow> filter_Contact req \<in> set (Contacts c))"
    unfolding q7_def using matches_step [OF k6, of "''contacts''"]
    by (simp add: document_fields)
  have m8: "matches q8 c \<longleftrightarrow> matches q7 c \<and> (filter_Public req \<longrightarrow> Public c)"
    unfolding q8_def using matches_step [OF k7, of "''public''"]
    by (simp add: document_fields)
  have m9: "matches q9 c \<longleftrightarrow> matches q8 c \<and> (filter_Disabled req \<longrightarrow> Disabled c)"
    unfolding q9_def using matches_step [OF k8, of "''disabled''"]
    by (simp add: document_fields)
  show ?thesis
    unfolding built m9 m8 m7 m6 m4 m3 m2 m1 by (simp only: conj_assoc)
qed

lemma map_of_step:
  "map_of (if b then AList.update k w q else q) k' =
     (if b \<and> k = k' then Some w else map_of q k')"
  by (simp add: AList.update_conv')

lemma ListQuery_scopes:
  "map_of (ListQuery req) ''scopes'' =
     (if filter_ScopesUnion req \<noteq> [] then Some (MatchIn (filter_ScopesUnion req))
      else if filter_ScopesIntersection req \<noteq> []
        then Some (MatchAll (filter_ScopesIntersection req))
      else None)"
  by (simp add: ListQuery_def Let_def map_of_step)

text \<open>
  C7. \<open>List\<close> returns the stored clients that meet every constraint of the query, and
  the query has a constraint for exactly the filter fields that are not empty or
  false: the tenant, redirect URI, grant type, response type and contact must be among
  the record's values of that field, the public and disabled flags must be set, the
  scope-intersection field asks for all listed scopes and the scope-union field for
  any listed scope. Both scope fields write the same key of the query, so when both are
  given the union constraint is the one that stays and the intersection constraint is
  dropped. (The engine answers the call.)
\<close>

theorem List_conjunctive:
  assumes "faults st = []"
  shows "List req st =
           (Inr (filter (\<lambda>c.
              (filter_AllowedTenantAccess req \<noteq> [] \<longrightarrow>
                 filter_AllowedTenantAccess req \<in> set (AllowedTenantAccess c)) \<and>
              (filter_RedirectURI req \<noteq> [] \<longrightarrow> filter_RedirectURI req \<in> set (RedirectURIs c)) \<and>
              (filter_GrantType req \<noteq> [] \<longrightarrow> filter_GrantType req \<in> set (GrantTypes c)) \<and>
              (filter_ResponseType req \<noteq> [] \<longrightarrow>
                 filter_ResponseType req \<in> set (ResponseTypes c)) \<and>
              (if filter_ScopesUnion req \<noteq> []
               then set (filter_ScopesUnion req) \<inter> set (Scopes c) \<noteq> {}
               else filter_ScopesIntersection req \<noteq> [] \<longrightarrow>
                    set (filter_ScopesIntersection req) \<subseteq> set (Scopes c)) \<and>
              (filter_Contact req \<noteq> [] \<longrightarrow> filter_Contact req \<in> set (Contacts c)) \<and>
              (filter_Public req \<longrightarrow> Public c) \<and>
              (filter_Disabled req \<longrightarrow> Disabled c)) (clients st)), st) \<and>
         map_of (ListQuery req) ''scopes'' =
           (if filter_ScopesUnion req \<noteq> [] then Some (MatchIn (filter_ScopesUnion req))
            else if filter_ScopesIntersection req \<noteq> []
              then Some (MatchAll (filter_ScopesIntersection req))
            else None)"
    (is "List req st = (Inr (filter ?wanted (clients st)), st) \<and> ?scopes")
proof -
  have "mgo_All (ListQuery req) st = (Inr (filter (matches (ListQuery req)) (clients st)), st)"
    using assms by (simp add: mgo_All_def engine_def)
  then have "List req st = (Inr (filter (matches (ListQuery req)) (clients st)), st)"
    by (simp add: List_def)
  moreover have "matches (ListQuery req) = ?wanted"
    by (rule ext) (rule matches_ListQuery)
  moreover have ?scopes
    by (rule ListQuery_scopes)
  ultimately show ?thesis
    by simp
qed

theorem List_conjunctive_witness:
  "List (zeroFilter\<lparr>filter_ScopesIntersection := [''read'', ''admin''],
                    filter_ScopesUnion := [''admin'', ''write''],
                    filter_GrantType := ''authorization_code''\<rparr>)
       (demoStore [demoClient, demoClient\<lparr>ID := ''c2'', Scopes := [''read'']\<rparr>,
                   demoClient\<lparr>ID := ''c3'', GrantTypes := [''implicit'']\<rparr>]) =
     (Inr [demoClient],
      demoStore [demoClient, demoClient\<lparr>ID := ''c2'', Scopes := [''read'']\<rparr>,
                 demoClient\<lparr>ID := ''c3'', GrantTypes := [''implicit'']\<rparr>]) \<and>
   List zeroFilter (demoStore [demoClient, demoClient\<lparr>ID := ''c2''\<rparr>]) =
     (Inr [demoClient, demoClient\<lparr>ID := ''c2''\<rparr>],
      demoStore [demoClient, demoClient\<lparr>ID := ''c2''\<rparr>])"
  using List_conjunctive [where st = "demoStore [demoClient, demoClient\<lparr>ID := ''c2'',
        Scopes := [''read'']\<rparr>, demoClient\<lparr>ID := ''c3'', GrantTypes := [''implicit'']\<rparr>]"
      and req = "zeroFilter\<lparr>filter_ScopesIntersection := [''read'', ''admin''],
        filter_ScopesUnion := [''admin'', ''write''],
        filter_GrantType := ''authorization_code''\<rparr>"]
    List_conjunctive [where st = "demoStore [demoClient, demoClient\<lparr>ID := ''c2''\<rparr>]"
      and req = zeroFilter]
  by (simp add: demoStore_def demoClient_def zeroFilter_def)

section \<open>Session records\<close>

lemma request_Create_ok:
  "faults st = [] \<Longrightarrow>
   request_Create E r st =
     (if list_ex (hasSignature (Signature r)) (sessions st E) then (Inl ErrResourceExists, st)
      else (Inr r, st\<lparr>sessions := (sessions st)(E := sessions st E @ [r])\<rparr>))"
  by (simp add: request_Create_def engine_def)

lemma find_hasSignature_append:
  "\<not> list_ex (hasSignature (Signature r)) rs \<Longrightarrow>
   find (hasSignature (Signature r)) (rs @ [r]) = Some r"
  by (induction rs) (auto simp: hasSignature_def)

lemma Signature_toMongo: "Signature (toMongo sig request) = sig"
  by (simp add: toMongo_def)

text \<open>
  C9. \<open>CreatePKCERequestSession\<close> and \<open>CreateOpenIDConnectSession\<close> fail with
  \<open>ErrResourceExists\<close> and leave the store as it is when a record with the signature is
  already in their collection; otherwise they add the record to their collection, where
  a lookup by that signature finds it. (The engine answers the call.)
\<close>

theorem Create_session_conflict:
  assumes "faults st = []"
  shows "CreatePKCERequestSession sig request st =
           (if list_ex (hasSignature sig) (sessions st EntityPKCESessions)
            then (Some ErrResourceExists, st)
            else (None, st\<lparr>sessions := (sessions st)(EntityPKCESessions :=
                    sessions st EntityPKCESessions @ [toMongo sig request])\<rparr>)) \<and>
         CreateOpenIDConnectSession sig request st =
           (if list_ex (hasSignature sig) (sessions st EntityOpenIDSessions)
            then (Some ErrResourceExists, st)
            else (None, st\<lparr>sessions := (sessions st)(EntityOpenIDSessions :=
                    sessions st EntityOpenIDSessions @ [toMongo sig request])\<rparr>)) \<and>
         (\<forall>E. \<not> list_ex (hasSignature sig) (sessions st E) \<longrightarrow>
            find (hasSignature sig) (sessions st E @ [toMongo sig request]) =
              Some (toMongo sig request))"
proof -
  have "CreatePKCERequestSession sig request st =
           (if list_ex (hasSignature sig) (sessions st EntityPKCESessions)
            then (Some ErrResourceExists, st)
            else (None, st\<lparr>sessions := (sessions st)(EntityPKCESessions :=
                    sessions st EntityPKCESessions @ [toMongo sig request])\<rparr>))"
    using assms
    by (simp add: CreatePKCERequestSession_def request_Create_ok Signature_toMongo)
  moreover have "CreateOpenIDConnectSession sig request st =
           (if list_ex (hasSignature sig) (sessions st EntityOpenIDSessions)
            then (Some ErrResourceExists, st)
            else (None, st\<lparr>sessions := (sessions st)(EntityOpenIDSessions :=
                    sessions st EntityOpenIDSessions @ [toMongo sig request])\<rparr>))"
    using assms
    by (simp add: CreateOpenIDConnectSession_def request_Create_ok Signature_toMongo)
  moreover have "find (hasSignature sig) (sessions st E @ [toMongo sig request]) =
      Some (toMongo sig request)"
    if "\<not> list_ex (hasSignature sig) (sessions st E)" for E
    using that find_hasSignature_append [of "toMongo sig request" "sessions st E"]
    by (simp add: Signature_toMongo)
  ultimately show ?thesis
    by blast
qed

theorem Create_session_conflict_witness:
  "CreatePKCERequestSession ''sig1'' demoRequester (demoStore []) =
     (None, (demoStore [])\<lparr>sessions := (\<lambda>_. [])(EntityPKCESessions :=
        [toMongo ''sig1'' demoRequester])\<rparr>) \<and>
   CreatePKCERequestSession ''sig1'' (demoRequester\<lparr>GetClient_ID := ''c2''\<rparr>)
       ((demoStore [])\<lparr>sessions := (\<lambda>_. [])(EntityPKCESessions :=
          [toMongo ''sig1'' demoRequester])\<rparr>) =
     (Some ErrResourceExists,
      (demoStore [])\<lparr>sessions := (\<lambda>_. [])(EntityPKCESessions :=
        [toMongo ''sig1'' demoRequester])\<rparr>) \<and>
   CreateOpenIDConnectSession ''sig1'' demoRequester
       ((demoStore [])\<lparr>sessions := (\<lambda>_. [])(EntityPKCESessions :=
          [toMongo ''sig1'' demoRequester])\<rparr>) =
     (None, (demoStore [])\<lparr>sessions := (\<lambda>_. [])(EntityPKCESessions :=
        [toMongo ''sig1'' demoRequester], EntityOpenIDSessions :=
        [toMongo ''sig1'' demoRequester])\<rparr>)"
  using Create_session_conflict [where st = "demoStore []" and sig = "''sig1''"
      and request = demoRequester]
    Create_session_conflict [where st = "(demoStore [])\<lparr>sessions :=
        (\<lambda>_. [])(EntityPKCESessions := [toMongo ''sig1'' demoRequester])\<rparr>"
      and sig = "''sig1''" and request = "demoRequester\<lparr>GetClient_ID := ''c2''\<rparr>"]
    Create_session_conflict [where st = "(demoStore [])\<lparr>sessions :=
        (\<lambda>_. [])(EntityPKCESessions := [toMongo ''sig1'' demoRequester])\<rparr>"
      and sig = "''sig1''" and request = demoRequester]
  by (simp add: demoStore_def hasSignature_def Signature_toMongo)

section \<open>Reading an OpenID Connect session into a nil session\<close>

text \<open>
  C10. For every authorization code and every requester whose session is nil,
  \<open>GetOpenIDConnectSession\<close> fails with \<open>ErrNotFound\<close>, whether or not a record for the
  code is in the collection, and leaves the store as it is. (The engine answers the
  lookup.)
\<close>

theorem GetOpenIDConnectSession_nil_session:
  assumes "faults st = []" and "GetSession requester = None"
  shows "GetOpenIDConnectSession authorizeCode requester st = (Inl ErrNotFound, st)"
  using assms
  by (simp add: GetOpenIDConnectSession_def GetBySignature_def engine_def
      split: option.split)

theorem GetOpenIDConnectSession_nil_session_witness:
  "find (hasSignature ''code1'')
     (sessions ((demoStore [demoClient])\<lparr>sessions := (\<lambda>_. [])(EntityOpenIDSessions :=
        [toMongo ''code1'' (demoRequester\<lparr>GetSession := Some ''payload''\<rparr>)])\<rparr>)
       EntityOpenIDSessions) =
     Some (toMongo ''code1'' (demoRequester\<lparr>GetSession := Some ''payload''\<rparr>)) \<and>
   GetOpenIDConnectSession ''code1'' demoRequester
     ((demoStore [demoClient])\<lparr>sessions := (\<lambda>_. [])(EntityOpenIDSessions :=
        [toMongo ''code1'' (demoRequester\<lparr>GetSession := Some ''payload''\<rparr>)])\<rparr>) =
     (Inl ErrNotFound,
      (demoStore [demoClient])\<lparr>sessions := (\<lambda>_. [])(EntityOpenIDSessions :=
        [toMongo ''code1'' (demoRequester\<lparr>GetSession := Some ''payload''\<rparr>)])\<rparr>)"
  using GetOpenIDConnectSession_nil_session [where st = "(demoStore [demoClient])\<lparr>sessions :=
        (\<lambda>_. [])(EntityOpenIDSessions :=
          [toMongo ''code1'' (demoRequester\<lparr>GetSession := Some ''payload''\<rparr>)])\<rparr>"
      and requester = demoRequester and authorizeCode = "''code1''"]
  by (simp add: demoStore_def demoRequester_def hasSignature_def Signature_toMongo)

section \<open>Migrating a secret on authentication\<close>

text \<open>
  When the legacy check authenticates a stored client, \<open>AuthenticateMigration\<close> hands
  the new digest to \<open>Update\<close> in the secret field, and \<open>Update\<close> hashes whatever secret
  differs from the stored one: what is stored is the digest of the digest, which the
  presented secret does not verify against.
\<close>

lemma AuthenticateMigration_digest_of_digest:
  assumes "faults st = []" and "hasher_ok h"
    and "find (hasID i) (clients st) = Some cur" and "currentAuth () = (cur, True)"
    and "\<not> Public cur" and "\<not> Disabled cur"
    and "Hash h secret = Inr d" and "d \<noteq> []" and "d \<noteq> Secret cur"
    and "Hash h d = Inr d2"
  shows "AuthenticateMigration h e currentAuth i secret st =
           (Inr (cur\<lparr>ID := i, UpdateTime := Now e, Secret := d2\<rparr>),
            st\<lparr>clients := replace_first (hasID i)
                 (cur\<lparr>ID := i, UpdateTime := Now e, Secret := d2\<rparr>) (clients st)\<rparr>) \<and>
         Compare h d2 secret \<noteq> None"
proof -
  have "(if Secret cur = Secret (cur\<lparr>Secret := d\<rparr>) \<or> Secret (cur\<lparr>Secret := d\<rparr>) = []
         then Inr (Secret cur) else Hash h (Secret (cur\<lparr>Secret := d\<rparr>))) = Inr d2"
    using assms(8,9,10) by auto
  with assms(1,3)
  have "Update h e i (cur\<lparr>Secret := d\<rparr>) st =
      (Inr (cur\<lparr>Secret := d\<rparr>\<lparr>ID := i, UpdateTime := Now e, Secret := d2\<rparr>),
       st\<lparr>clients := replace_first (hasID i)
            (cur\<lparr>Secret := d\<rparr>\<lparr>ID := i, UpdateTime := Now e, Secret := d2\<rparr>) (clients st)\<rparr>)"
    by (rule Update_stores)
  then have "AuthenticateMigration h e currentAuth i secret st =
           (Inr (cur\<lparr>ID := i, UpdateTime := Now e, Secret := d2\<rparr>),
            st\<lparr>clients := replace_first (hasID i)
                 (cur\<lparr>ID := i, UpdateTime := Now e, Secret := d2\<rparr>) (clients st)\<rparr>)"
    using assms(4,5,6,7) by (simp add: AuthenticateMigration_def)
  moreover have "d \<noteq> secret"
    using assms(2,7) by (auto simp: hasher_ok_def)
  then have "Compare h d2 secret \<noteq> None"
    using assms(2,10) by (auto simp: hasher_ok_def)
  ultimately show ?thesis
    by simp
qed

lemma AuthenticateMigration_digest_of_digest_witness:
  "Compare demoHasher ''##s3cr3t'' ''s3cr3t'' \<noteq> None \<and>
   AuthenticateMigration demoHasher demoEnv (\<lambda>_. (demoClient\<lparr>Secret := ''md5:5ebe22''\<rparr>, True))
       ''c1'' ''s3cr3t'' (demoStore [demoClient\<lparr>Secret := ''md5:5ebe22''\<rparr>]) =
     (Inr (demoClient\<lparr>Secret := ''##s3cr3t'', UpdateTime := 200\<rparr>),
      demoStore [demoClient\<lparr>Secret := ''##s3cr3t'', UpdateTime := 200\<rparr>])"
  using AuthenticateMigration_digest_of_digest [where st = "demoStore [demoClient\<lparr>Secret :=
        ''md5:5ebe22''\<rparr>]" and h = demoHasher and i = "''c1''" and e = demoEnv
      and cur = "demoClient\<lparr>Secret := ''md5:5ebe22''\<rparr>"
      and currentAuth = "\<lambda>_. (demoClient\<lparr>Secret := ''md5:5ebe22''\<rparr>, True)"
      and secret = "''s3cr3t''" and d = "''#s3cr3t''" and ?d2.0 = "''##s3cr3t''",
      OF _ demoHasher_ok]
  by (simp add: demoStore_def demoClient_def demoEnv_def demoHasher_def hasID_def)

text \<open>
  C1, at a failing input. The store holds client \<open>c1\<close> with a legacy hash; the legacy
  function returns that record and \<open>True\<close>; the presented secret is \<open>s3cr3t\<close>, whose
  digest is \<open>#s3cr3t\<close>. \<open>AuthenticateMigration\<close> returns and stores the record with the
  secret \<open>##s3cr3t\<close>, the digest of the digest, and a following \<open>Authenticate\<close> with the
  same secret fails.
\<close>

theorem AuthenticateMigration_rehashes:
  "Hash demoHasher ''s3cr3t'' = Inr ''#s3cr3t'' \<and>
   AuthenticateMigration demoHasher demoEnv (\<lambda>_. (demoClient\<lparr>Secret := ''md5:5ebe22''\<rparr>, True))
       ''c1'' ''s3cr3t'' (demoStore [demoClient\<lparr>Secret := ''md5:5ebe22''\<rparr>]) =
     (Inr (demoClient\<lparr>Secret := ''##s3cr3t'', UpdateTime := 200\<rparr>),
      demoStore [demoClient\<lparr>Secret := ''##s3cr3t'', UpdateTime := 200\<rparr>]) \<and>
   Authenticate demoHasher ''c1'' ''s3cr3t''
       (demoStore [demoClient\<lparr>Secret := ''##s3cr3t'', UpdateTime := 200\<rparr>]) =
     (Inl (ErrHasher ''mismatch''),
      demoStore [demoClient\<lparr>Secret := ''##s3cr3t'', UpdateTime := 200\<rparr>])"
  by (simp add: AuthenticateMigration_def Update_def Authenticate_def getConcrete_def
      mgo_One_def mgo_Update_def engine_def hasID_def IsEmpty_def zeroClient_def
      GetHashedSecret_def Let_def demoStore_def demoClient_def demoEnv_def demoHasher_def)

section \<open>What the tracing span is given on failure\<close>

text \<open>
  C6, at a failing input. The engine fails the write with an error that is neither
  not-found nor a duplicate. \<open>Update\<close> and \<open>Migrate\<close> then give the span the record with
  its secret as it is (the new digest; the secret the caller supplied); \<open>Create\<close> on the
  same path gives it the record with the secret replaced by \<open>REDACTED\<close>.
\<close>

theorem secret_in_span_on_failure:
  "Update demoHasher demoEnv ''c1'' (demoClient\<lparr>Secret := ''n3w''\<rparr>)
       ((demoStore [demoClient])\<lparr>faults := [None, Some (MgoFailure ''connection lost'')]\<rparr>) =
     (Inl (ErrEngine (MgoFailure ''connection lost'')),
      (demoStore [demoClient])\<lparr>spanlog :=
         [LogQuery (demoClient\<lparr>Secret := ''#n3w'', UpdateTime := 200\<rparr>),
          LogErr (MgoFailure ''connection lost'')]\<rparr>) \<and>
   Migrate demoEnv (demoClient\<lparr>Secret := ''pl41n''\<rparr>)
       ((demoStore [demoClient])\<lparr>faults := [Some (MgoFailure ''connection lost'')]\<rparr>) =
     (Inl (ErrEngine (MgoFailure ''connection lost'')),
      (demoStore [demoClient])\<lparr>spanlog :=
         [LogQuery (demoClient\<lparr>Secret := ''pl41n'', UpdateTime := 200\<rparr>),
          LogErr (MgoFailure ''connection lost'')]\<rparr>) \<and>
   Create demoHasher demoEnv (demoClient\<lparr>ID := ''c2'', Secret := ''s3cr3t''\<rparr>)
       ((demoStore [demoClient])\<lparr>faults := [Some (MgoFailure ''connection lost'')]\<rparr>) =
     (Inl (ErrEngine (MgoFailure ''connection lost'')),
      (demoStore [demoClient])\<lparr>spanlog :=
         [LogQuery (demoClient\<lparr>ID := ''c2'', Secret := ''REDACTED''\<rparr>),
          LogErr (MgoFailure ''connection lost'')]\<rparr>)"
  by (simp add: Update_def Migrate_def Create_def getConcrete_def mgo_One_def mgo_Update_def
      mgo_Upsert_def mgo_Insert_def engine_def hasID_def IsDup_def otLogQuery_def otLogErr_def
      Let_def demoStore_def demoClient_def demoEnv_def demoHasher_def)

section \<open>The unique index is kept\<close>

lemma map_ID_replace_first:
  "ID d = i \<Longrightarrow> map ID (replace_first (hasID i) d cs) = map ID cs"
  by (induction cs) (auto simp: hasID_def)

lemma distinct_remove_first:
  "distinct (map f xs) \<Longrightarrow> distinct (map f (remove_first P xs))"
  by (induction xs) (auto dest: set_remove_first)

lemma unique_ids_log [simp]:
  "unique_ids (otLogErr err st) = unique_ids st"
  "unique_ids (otLogQuery c st) = unique_ids st"
  by (simp_all add: unique_ids_def otLogErr_def otLogQuery_def)

lemma engine_clients: "clients (snd (engine st)) = clients st"
  by (simp add: engine_def split: list.split)

lemma engine_unique_ids: "engine st = (f, st1) \<Longrightarrow> unique_ids st1 = unique_ids st"
  using engine_clients [of st] by (simp add: unique_ids_def)

lemma unique_ids_append:
  "unique_ids st \<Longrightarrow> \<not> list_ex (hasID (ID d)) (clients st) \<Longrightarrow>
   unique_ids (st\<lparr>clients := clients st @ [d]\<rparr>)"
  by (auto simp: unique_ids_def list_ex_iff hasID_def)

lemma unique_ids_replace:
  "unique_ids st \<Longrightarrow> ID d = i \<Longrightarrow>
   unique_ids (st\<lparr>clients := replace_first (hasID i) d (clients st)\<rparr>)"
  by (simp add: unique_ids_def map_ID_replace_first)

lemma unique_ids_remove:
  "unique_ids st \<Longrightarrow> unique_ids (st\<lparr>clients := remove_first P (clients st)\<rparr>)"
  by (simp add: unique_ids_def distinct_remove_first)

lemma unique_ids_mgo_One: "mgo_One i st = (r, st') \<Longrightarrow> unique_ids st' = unique_ids st"
proof (cases "engine st")
  case (Pair f st1)
  assume "mgo_One i st = (r, st')"
  with Pair have "st' = st1"
    by (cases f) (auto simp: mgo_One_def split: option.splits)
  with Pair show ?thesis
    by (simp add: engine_unique_ids)
qed

lemma unique_ids_getConcrete:
  "getConcrete i st = (r, st') \<Longrightarrow> unique_ids st' = unique_ids st"
proof (cases "mgo_One i st")
  case (Pair x st1)
  assume "getConcrete i st = (r, st')"
  with Pair have "unique_ids st' = unique_ids st1"
    by (cases x) (auto simp: getConcrete_def split: if_splits)
  with Pair show ?thesis
    by (simp add: unique_ids_mgo_One)
qed

lemma unique_ids_mgo_Insert:
  assumes "mgo_Insert d st = (r, st')" and "unique_ids st"
  shows "unique_ids st'"
proof (cases "engine st")
  case (Pair f st1)
  then have u1: "unique_ids st1"
    using assms(2) by (simp add: engine_unique_ids)
  show ?thesis
  proof (cases f)
    case None
    with Pair assms(1) u1 show ?thesis
      by (auto simp: mgo_Insert_def unique_ids_append split: if_splits)
  next
    case (Some err)
    with Pair assms(1) u1 show ?thesis
      by (simp add: mgo_Insert_def)
  qed
qed

lemma unique_ids_mgo_Update:
  assumes "mgo_Update i d st = (r, st')" and "ID d = i" and "unique_ids st"
  shows "unique_ids st'"
proof (cases "engine st")
  case (Pair f st1)
  then have u1: "unique_ids st1"
    using assms(3) by (simp add: engine_unique_ids)
  show ?thesis
  proof (cases f)
    case None
    with Pair assms(1,2) u1 show ?thesis
      by (auto simp: mgo_Update_def unique_ids_replace split: if_splits)
  next
    case (Some err)
    with Pair assms(1) u1 show ?thesis
      by (simp add: mgo_Update_def)
  qed
qed

lemma unique_ids_mgo_Upsert:
  assumes "mgo_Upsert (ID d) d st = (r, st')" and "unique_ids st"
  shows "unique_ids st'"
proof (cases "engine st")
  case (Pair f st1)
  then have u1: "unique_ids st1"
    using assms(2) by (simp add: engine_unique_ids)
  show ?thesis
  proof (cases f)
    case None
    with Pair assms(1) u1 show ?thesis
      by (auto simp: mgo_Upsert_def unique_ids_replace unique_ids_append split: if_splits)
  next
    case (Some err)
    with Pair assms(1) u1 show ?thesis
      by (simp add: mgo_Upsert_def)
  qed
qed

lemma unique_ids_mgo_Remove:
  assumes "mgo_Remove i st = (r, st')" and "unique_ids st"
  shows "unique_ids st'"
proof (cases "engine st")
  case (Pair f st1)
  then have u1: "unique_ids st1"
    using assms(2) by (simp add: engine_unique_ids)
  show ?thesis
  proof (cases f)
    case None
    with Pair assms(1) u1 show ?thesis
      by (auto simp: mgo_Remove_def unique_ids_remove split: if_splits)
  next
    case (Some err)
    with Pair assms(1) u1 show ?thesis
      by (simp add: mgo_Remove_def)
  qed
qed

lemma unique_ids_Create:
  assumes "unique_ids st"
  shows "unique_ids (snd (Create h e c st))"
proof -
  define c2 where "c2 = (let client1 = (if ID c = [] then c\<lparr>ID := NewUUID e\<rparr> else c)
      in if CreateTime client1 = 0 then client1\<lparr>CreateTime := Now e\<rparr> else client1)"
  have unfolded: "Create h e c st =
      (case Hash h (Secret c2) of
         Inl msg \<Rightarrow> (Inl (ErrHasher msg), st)
       | Inr hash \<Rightarrow>
           (case mgo_Insert (c2\<lparr>Secret := hash\<rparr>) st of
              (Some err, st1) \<Rightarrow>
                (if IsDup err then (Inl ErrResourceExists, otLogErr err st1)
                 else (Inl (ErrEngine err),
                       otLogErr err (otLogQuery (c2\<lparr>Secret := hash, Secret := ''REDACTED''\<rparr>) st1)))
            | (None, st1) \<Rightarrow> (Inr (c2\<lparr>Secret := hash\<rparr>), st1)))"
    unfolding Create_def c2_def Let_def by (rule refl)
  show ?thesis
  proof (cases "Hash h (Secret c2)")
    case (Inl msg)
    with assms show ?thesis
      by (simp add: unfolded)
  next
    case (Inr hash)
    obtain r st1 where ins: "mgo_Insert (c2\<lparr>Secret := hash\<rparr>) st = (r, st1)"
      by (cases "mgo_Insert (c2\<lparr>Secret := hash\<rparr>) st")
    then have "unique_ids st1"
      using assms by (rule unique_ids_mgo_Insert)
    with Inr ins show ?thesis
      by (cases r) (simp_all add: unfolded)
  qed
qed

lemma unique_ids_Update:
  assumes "unique_ids st"
  shows "unique_ids (snd (Update h e i u st))"
proof -
  obtain x st1 where get: "getConcrete i st = (x, st1)"
    by (cases "getConcrete i st")
  then have u1: "unique_ids st1"
    using assms by (simp add: unique_ids_getConcrete)
  show ?thesis
  proof (cases x)
    case (Inl err)
    with get u1 show ?thesis
      by (simp add: Update_def)
  next
    case (Inr cur)
    define hashed where "hashed = (if Secret cur = Secret u \<or> Secret u = []
        then Inr (Secret cur) else Hash h (Secret u))"
    have unfolded: "Update h e i u st =
        (case hashed of
           Inl msg \<Rightarrow> (Inl (ErrHasher msg), st1)
         | Inr secret \<Rightarrow>
             (case mgo_Update i (u\<lparr>ID := i, UpdateTime := Now e, Secret := secret\<rparr>) st1 of
                (Some err, st2) \<Rightarrow>
                  (if err = MgoErrNotFound then (Inl ErrNotFound, otLogErr err st2)
                   else (Inl (ErrEngine err),
                         otLogErr err
                           (otLogQuery (u\<lparr>ID := i, UpdateTime := Now e, Secret := secret\<rparr>) st2)))
              | (None, st2) \<Rightarrow>
                  (Inr (u\<lparr>ID := i, UpdateTime := Now e, Secret := secret\<rparr>), st2)))"
      using get Inr by (simp add: Update_def Let_def hashed_def split: sum.split)
    show ?thesis
    proof (cases hashed)
      case (Inl msg)
      with u1 show ?thesis
        by (simp add: unfolded)
    next
      case (Inr secret)
      obtain r st2
        where upd: "mgo_Update i (u\<lparr>ID := i, UpdateTime := Now e, Secret := secret\<rparr>) st1 = (r, st2)"
        by (cases "mgo_Update i (u\<lparr>ID := i, UpdateTime := Now e, Secret := secret\<rparr>) st1")
      moreover have "ID (u\<lparr>ID := i, UpdateTime := Now e, Secret := secret\<rparr>) = i"
        by simp
      ultimately have "unique_ids st2"
        using u1 by (rule unique_ids_mgo_Update)
      with Inr upd show ?thesis
        by (cases r) (simp_all add: unfolded)
    qed
  qed
qed

lemma unique_ids_Migrate:
  assumes "unique_ids st"
  shows "unique_ids (snd (Migrate e m st))"
proof -
  define m2 where "m2 = (let migrated1 = (if ID m = [] then m\<lparr>ID := NewUUID e\<rparr> else m)
      in if CreateTime migrated1 = 0 then migrated1\<lparr>CreateTime := Now e\<rparr>
         else migrated1\<lparr>UpdateTime := Now e\<rparr>)"
  have unfolded: "Migrate e m st =
      (case mgo_Upsert (ID m2) m2 st of
         (Some err, st1) \<Rightarrow>
           (if err = MgoErrNotFound then (Inl ErrNotFound, otLogErr err st1)
            else if IsDup err then (Inl ErrResourceExists, otLogErr err st1)
            else (Inl (ErrEngine err), otLogErr err (otLogQuery m2 st1)))
       | (None, st1) \<Rightarrow> (Inr m2, st1))"
    unfolding Migrate_def m2_def Let_def by (rule refl)
  obtain r st1 where up: "mgo_Upsert (ID m2) m2 st = (r, st1)"
    by (cases "mgo_Upsert (ID m2) m2 st")
  then have "unique_ids st1"
    using assms by (rule unique_ids_mgo_Upsert)
  with up show ?thesis
    by (cases r) (simp_all add: unfolded)
qed

lemma unique_ids_Delete:
  assumes "unique_ids st"
  shows "unique_ids (snd (Delete i st))"
proof -
  obtain r st1 where rm: "mgo_Remove i st = (r, st1)"
    by (cases "mgo_Remove i st")
  then have "unique_ids st1"
    using assms by (rule unique_ids_mgo_Remove)
  with rm show ?thesis
    by (cases r) (simp_all add: Delete_def)
qed

lemma unique_ids_AuthenticateMigration:
  assumes "unique_ids st"
  shows "unique_ids (snd (AuthenticateMigration h e a i s st))"
proof (cases "a ()")
  case (Pair client authenticated)
  show ?thesis
  proof (cases "Hash h s")
    case (Inl msg)
    with Pair assms show ?thesis
      by (simp add: AuthenticateMigration_def split: option.split)
  next
    case (Inr newHash)
    with Pair assms unique_ids_Update [OF assms, of h e i "client\<lparr>Secret := newHash\<rparr>"]
    show ?thesis
      by (simp add: AuthenticateMigration_def split: option.split)
  qed
qed

text \<open>
  Every operation of the client manager that writes keeps the IDs of the collection
  distinct, whatever the engine answers.
\<close>

theorem unique_ids_kept:
  assumes "unique_ids st"
  shows "unique_ids (snd (Create h e c st)) \<and> unique_ids (snd (Update h e i u st)) \<and>
         unique_ids (snd (Migrate e m st)) \<and> unique_ids (snd (Delete i st)) \<and>
         unique_ids (snd (AuthenticateMigration h e a i s st))"
  using assms
  by (simp add: unique_ids_Create unique_ids_Update unique_ids_Migrate unique_ids_Delete
      unique_ids_AuthenticateMigration)

theorem unique_ids_kept_witness:
  "unique_ids (demoStore [demoClient]) \<and>
   unique_ids (snd (Create demoHasher demoEnv (demoClient\<lparr>ID := []\<rparr>) (demoStore [demoClient]))) \<and>
   unique_ids (snd (Create demoHasher demoEnv demoClient (demoStore [demoClient]))) \<and>
   unique_ids (snd (Migrate demoEnv demoClient (demoStore [demoClient])))"
  using unique_ids_kept [where st = "demoStore [demoClient]" and h = demoHasher and e = demoEnv
      and c = "demoClient\<lparr>ID := []\<rparr>" and m = demoClient]
    unique_ids_kept [where st = "demoStore [demoClient]" and h = demoHasher and e = demoEnv
      and c = demoClient and m = demoClient]
  by (simp add: unique_ids_def demoStore_def demoClient_def)

end
